theory Spec2Isabelle
  imports Complex_Main "HOL-Library.Char_ord" "HOL-Library.Monad_Syntax"
begin

section \<open>Strings\<close>

text \<open>
  A JavaScript string is a sequence of UTF-16 code units. The model uses \<open>string\<close>
  (a list of 8-bit characters), one \<open>char\<close> per code unit, so it covers every text
  whose code units are below 256 (ASCII and Latin-1). The character tables below are
  the restrictions of the ECMAScript ones to that range.
\<close>

definition is_upper_cu :: "char \<Rightarrow> bool" where
  "is_upper_cu c = (let n = (of_char c :: int) in
     (65 \<le> n \<and> n \<le> 90) \<or> (192 \<le> n \<and> n \<le> 222 \<and> n \<noteq> 215))"

definition is_lower_cu :: "char \<Rightarrow> bool" where
  "is_lower_cu c = (let n = (of_char c :: int) in
     (97 \<le> n \<and> n \<le> 122) \<or> (224 \<le> n \<and> n \<le> 254 \<and> n \<noteq> 247))"

definition toLowerCase_cu :: "char \<Rightarrow> char" where
  "toLowerCase_cu c = (if is_upper_cu c then char_of (of_char c + (32::int)) else c)"

text \<open>\<open>String.prototype.toLowerCase\<close>.\<close>

definition toLowerCase :: "string \<Rightarrow> string" where
  "toLowerCase s = map toLowerCase_cu s"

text \<open>
  The case folding of a case-insensitive regular expression (\<open>Canonicalize\<close> without
  the \<open>u\<close> flag): the upper-case code unit when there is one in the same range.
\<close>

definition canonicalize_cu :: "char \<Rightarrow> char" where
  "canonicalize_cu c = (if is_lower_cu c then char_of (of_char c - (32::int)) else c)"

text \<open>White space as \<open>\s\<close> and \<open>trim\<close> see it: TAB, LF, VT, FF, CR, space, NBSP.\<close>

definition is_space :: "char \<Rightarrow> bool" where
  "is_space c = (let n = (of_char c :: int) in (9 \<le> n \<and> n \<le> 13) \<or> n = 32 \<or> n = 160)"



text \<open>A word character of \<open>\b\<close>: a letter, a digit or the underscore.\<close>

definition is_word_char :: "char \<Rightarrow> bool" where
  "is_word_char c = (let n = (of_char c :: int) in
     (48 \<le> n \<and> n \<le> 57) \<or> (65 \<le> n \<and> n \<le> 90) \<or> n = 95 \<or> (97 \<le> n \<and> n \<le> 122))"

definition trim :: "string \<Rightarrow> string" where
  "trim s = rev (dropWhile is_space (rev (dropWhile is_space s)))"

definition startsWith :: "string \<Rightarrow> string \<Rightarrow> bool" where
  "startsWith s p = (take (length p) s = p)"

text \<open>\<open>s.includes(sub)\<close>.\<close>

fun str_includes :: "string \<Rightarrow> string \<Rightarrow> bool" where
  "str_includes [] sub = (sub = [])"
| "str_includes (c # cs) sub = (startsWith (c # cs) sub \<or> str_includes cs sub)"

text \<open>\<open>s.substring(i, j)\<close> for \<open>i \<le> j\<close>; indices beyond the end are clamped.\<close>

definition substring :: "string \<Rightarrow> nat \<Rightarrow> nat \<Rightarrow> string" where
  "substring s i j = take (j - i) (drop i s)"

section \<open>Regular expressions\<close>

text \<open>
  The regular expressions of the sources are translated into the syntax tree below and
  run by a backtracking matcher that returns the successful continuations in the order
  in which the ECMAScript matcher would try them; the head of that list is the match a
  call of \<open>exec\<close> finds. A matcher state is the code unit before the current position
  (none at position 0), the rest of the input, and the captures made so far.
\<close>

datatype regex =
    Eps
  | Chr char
  | Cls bool "(char \<times> char) list"
  | Seq regex regex
  | Alt regex regex
  | Star regex
  | Rep nat nat regex
  | Grp nat regex
  | Bol
  | Eol
  | WordB

type_synonym captures = "(nat \<times> string) list"

type_synonym mstate = "char option \<times> string \<times> captures"

definition st_prev :: "mstate \<Rightarrow> char option" where
  "st_prev st = fst st"

definition st_rest :: "mstate \<Rightarrow> string" where
  "st_rest st = fst (snd st)"

definition st_caps :: "mstate \<Rightarrow> captures" where
  "st_caps st = snd (snd st)"

definition canon :: "bool \<Rightarrow> char \<Rightarrow> char" where
  "canon ic c = (if ic then canonicalize_cu c else c)"

text \<open>
  Membership in a class given by ranges; with the \<open>i\<close> flag a code unit is in the
  class when some member has the same case folding.
\<close>

definition in_ranges :: "bool \<Rightarrow> (char \<times> char) list \<Rightarrow> char \<Rightarrow> bool" where
  "in_ranges ic rs c = (\<exists>(lo, hi) \<in> set rs.
      (lo \<le> c \<and> c \<le> hi) \<or>
      (ic \<and> ((lo \<le> canonicalize_cu c \<and> canonicalize_cu c \<le> hi)
           \<or> (lo \<le> toLowerCase_cu c \<and> toLowerCase_cu c \<le> hi))))"

text \<open>
  Greedy \<open>r*\<close>: an iteration that consumes nothing is rejected, as the ECMAScript
  \<open>RepeatMatcher\<close> does, so the length of the rest bounds the number of iterations.
\<close>

primrec star_iter :: "nat \<Rightarrow> (mstate \<Rightarrow> mstate list) \<Rightarrow> mstate \<Rightarrow> mstate list" where
  "star_iter 0 f st = [st]"
| "star_iter (Suc n) f st =
     concat (map (star_iter n f)
       (filter (\<lambda>st'. length (st_rest st') < length (st_rest st)) (f st))) @ [st]"

text \<open>
  Greedy \<open>r{lo,hi}\<close>; the first argument counts the iterations still allowed. The
  expressions repeated this way in the sources match one code unit, so no iteration is
  empty.
\<close>

primrec rep_iter :: "nat \<Rightarrow> nat \<Rightarrow> (mstate \<Rightarrow> mstate list) \<Rightarrow> mstate \<Rightarrow> mstate list" where
  "rep_iter 0 lo f st = (if lo = 0 then [st] else [])"
| "rep_iter (Suc n) lo f st =
     concat (map (rep_iter n (lo - 1) f) (f st)) @ (if lo = 0 then [st] else [])"

primrec rmatch :: "bool \<Rightarrow> regex \<Rightarrow> mstate \<Rightarrow> mstate list" where
  "rmatch ic Eps st = [st]"
| "rmatch ic (Chr c) st = (case st_rest st of
      [] \<Rightarrow> []
    | x # xs \<Rightarrow> if canon ic x = canon ic c then [(Some x, xs, st_caps st)] else [])"
| "rmatch ic (Cls neg rs) st = (case st_rest st of
      [] \<Rightarrow> []
    | x # xs \<Rightarrow> if in_ranges ic rs x \<noteq> neg then [(Some x, xs, st_caps st)] else [])"
| "rmatch ic (Seq a b) st = concat (map (rmatch ic b) (rmatch ic a st))"
| "rmatch ic (Alt a b) st = rmatch ic a st @ rmatch ic b st"
| "rmatch ic (Star r) st = star_iter (length (st_rest st)) (rmatch ic r) st"
| "rmatch ic (Rep lo hi r) st = rep_iter hi lo (rmatch ic r) st"
| "rmatch ic (Grp n r) st =
     map (\<lambda>st'. (st_prev st', st_rest st',
            (n, take (length (st_rest st) - length (st_rest st')) (st_rest st)) # st_caps st'))
         (rmatch ic r st)"
| "rmatch ic Bol st = (if st_prev st = None then [st] else [])"
| "rmatch ic Eol st = (if st_rest st = [] then [st] else [])"
| "rmatch ic WordB st =
     (if (case st_prev st of None \<Rightarrow> False | Some p \<Rightarrow> is_word_char p)
         \<noteq> (case st_rest st of [] \<Rightarrow> False | x # _ \<Rightarrow> is_word_char x)
      then [st] else [])"

definition Str :: "string \<Rightarrow> regex" where
  "Str s = foldr (\<lambda>c r. Seq (Chr c) r) s Eps"

definition Plus :: "regex \<Rightarrow> regex" where
  "Plus r = Seq r (Star r)"

definition Opt :: "regex \<Rightarrow> regex" where
  "Opt r = Alt r Eps"

fun Alts :: "regex list \<Rightarrow> regex" where
  "Alts [] = Eps"
| "Alts [r] = r"
| "Alts (r # rs) = Alt r (Alts rs)"

fun Seqs :: "regex list \<Rightarrow> regex" where
  "Seqs [] = Eps"
| "Seqs [r] = r"
| "Seqs (r # rs) = Seq r (Seqs rs)"

text \<open>The classes \<open>\s\<close>, \<open>\d\<close> and \<open>[0-9a-fA-F]\<close>.\<close>

definition cls_space :: regex where
  "cls_space = Cls False [(CHR 0x09, CHR 0x0D), (CHR '' '', CHR '' ''), (CHR 0xA0, CHR 0xA0)]"

definition cls_digit :: regex where
  "cls_digit = Cls False [(CHR ''0'', CHR ''9'')]"

definition cls_hex :: regex where
  "cls_hex = Cls False [(CHR ''0'', CHR ''9''), (CHR ''a'', CHR ''f''), (CHR ''A'', CHR ''F'')]"

text \<open>
  One match: the matched text and the captures. \<open>search\<close> looks for the leftmost
  position at or after the current one where the expression matches, and returns the
  input from that position on together with the state after the match.
\<close>

record rx_match =
  m_text :: string
  m_groups :: captures

fun search :: "bool \<Rightarrow> regex \<Rightarrow> char option \<Rightarrow> string \<Rightarrow> (string \<times> mstate) option" where
  "search ic re p s = (case rmatch ic re (p, s, []) of
       st # _ \<Rightarrow> Some (s, st)
     | [] \<Rightarrow> (case s of [] \<Rightarrow> None | c # cs \<Rightarrow> search ic re (Some c) cs))"

definition mk_match :: "string \<Rightarrow> mstate \<Rightarrow> rx_match" where
  "mk_match s0 st =
     \<lparr>m_text = take (length s0 - length (st_rest st)) s0, m_groups = st_caps st\<rparr>"

text \<open>\<open>m[n]\<close> of a match object; a group that did not take part is \<open>undefined\<close>.\<close>

definition group :: "rx_match \<Rightarrow> nat \<Rightarrow> string option" where
  "group m n = map_of (m_groups m) n"

text \<open>
  The text of a group that takes part in every match of its expression (all groups of
  the expressions below do).
\<close>

definition group_text :: "rx_match \<Rightarrow> nat \<Rightarrow> string" where
  "group_text m n = (case group m n of Some t \<Rightarrow> t | None \<Rightarrow> [])"

text \<open>\<open>re.test(s)\<close> and \<open>s.match(re)\<close> of an expression without the \<open>g\<close> flag.\<close>

definition rx_first :: "bool \<Rightarrow> regex \<Rightarrow> string \<Rightarrow> rx_match option" where
  "rx_first ic re s = (case search ic re None s of
       None \<Rightarrow> None | Some (s0, st) \<Rightarrow> Some (mk_match s0 st))"


lemma search_start_le:
  "search ic re p s = Some (s0, st) \<Longrightarrow> length s0 \<le> length s"
proof (induction s arbitrary: p)
  case Nil
  then show ?case by (auto split: list.splits)
next
  case (Cons c cs)
  show ?case
  proof (cases "rmatch ic re (p, c # cs, [])")
    case Nil
    with Cons.prems have "search ic re (Some c) cs = Some (s0, st)" by simp
    from Cons.IH [OF this] show ?thesis by simp
  next
    case (Cons st' sts)
    with Cons.prems show ?thesis by simp
  qed
qed

text \<open>
  The loop \<open>while ((match = re.exec(css)) !== null) { ... }\<close> of an expression with
  the \<open>g\<close> flag: each call resumes at \<open>lastIndex\<close>, the end of the previous match.
  \<open>exec\<close> does not move \<open>lastIndex\<close> past an empty match, so after one the loop would
  find it again for ever: the result is then \<open>None\<close>.
\<close>

function exec_all :: "bool \<Rightarrow> regex \<Rightarrow> char option \<Rightarrow> string \<Rightarrow> rx_match list option" where
  "exec_all ic re p s = (case search ic re p s of
       None \<Rightarrow> Some []
     | Some (s0, st) \<Rightarrow>
         if length (st_rest st) < length s0
         then map_option (\<lambda>ms. mk_match s0 st # ms) (exec_all ic re (st_prev st) (st_rest st))
         else None)"
  by pat_completeness auto
termination
proof (relation "measure (\<lambda>(ic, re, p, s). length s)")
  show "wf (measure (\<lambda>(ic, re, p, s). length s))" by simp
next
  fix ic re p s x2 s0 st
  assume a: "search ic re p s = Some x2" "(s0, st) = x2" "length (st_rest st) < length s0"
  then have "length s0 \<le> length s" using search_start_le [of ic re p s s0 st] by simp
  with a show "((ic, re, st_prev st, st_rest st), (ic, re, p, s)) \<in> measure (\<lambda>(ic, re, p, s). length s)"
    by simp
qed

declare search.simps [simp del]

declare exec_all.simps [simp del]

text \<open>
  A syntactic criterion: every match of such an expression takes at least one code unit.
\<close>

primrec consumes :: "regex \<Rightarrow> bool" where
  "consumes Eps = False"
| "consumes (Chr c) = True"
| "consumes (Cls neg rs) = True"
| "consumes (Seq a b) = (consumes a \<or> consumes b)"
| "consumes (Alt a b) = (consumes a \<and> consumes b)"
| "consumes (Star r) = False"
| "consumes (Rep lo hi r) = (0 < lo \<and> consumes r)"
| "consumes (Grp n r) = consumes r"
| "consumes Bol = False"
| "consumes Eol = False"
| "consumes WordB = False"

section \<open>Data model\<close>

text \<open>\<open>DesignToken\<close> of \<open>optics-data.ts\<close> and \<open>CSSValue\<close> of \<open>css-parser.ts\<close>.\<close>

record DesignToken =
  t_name :: string
  t_value :: string
  t_category :: string
  t_description :: "string option"

datatype css_type =
  Color | Spacing | FontSize | FontWeight | FontFamily | BorderRadius | Shadow | Unknown

record CSSValue =
  v_type :: css_type
  v_value :: string
  v_line :: "nat option"
  v_property :: "string option"

section \<open>Value extraction (\<open>utils/css-parser.ts\<close>)\<close>

text \<open>\<open>/#[0-9a-fA-F]{3,6}\b/g\<close>\<close>

definition hexRegex :: regex where
  "hexRegex = Seqs [Chr CHR ''#'', Rep 3 6 cls_hex, WordB]"

text \<open>\<open>/rgba?\([^)]+\)/g\<close>\<close>

definition rgbRegex :: regex where
  "rgbRegex = Seqs [Str ''rgb'', Opt (Chr CHR ''a''), Chr CHR ''('',
                    Plus (Cls True [(CHR '')'', CHR '')'')]), Chr CHR '')'']"

definition extractColors :: "string \<Rightarrow> CSSValue list option" where
  "extractColors css = do {
     hexes \<leftarrow> exec_all False hexRegex None css;
     rgbs \<leftarrow> exec_all False rgbRegex None css;
     Some (map (\<lambda>m. \<lparr>v_type = Color, v_value = m_text m, v_line = None, v_property = None\<rparr>)
             (hexes @ rgbs))
   }"

definition spacingProps :: "string list" where
  "spacingProps = [''padding'', ''margin'', ''gap'', ''width'', ''height'',
                   ''top'', ''bottom'', ''left'', ''right'']"

text \<open>
  \<open>new RegExp(`(${spacingProps.join('|')}):\\s*([\\d.]+(?:px|rem|em))`, 'gi')\<close>: the
  pattern is a string literal, where \<open>\\d\<close> is the class of digits.
\<close>

definition spacingRegex :: regex where
  "spacingRegex = Seqs [Grp 1 (Alts (map Str spacingProps)), Chr CHR '':'', Star cls_space,
     Grp 2 (Seqs [Plus (Cls False [(CHR ''0'', CHR ''9''), (CHR ''.'', CHR ''.'')]),
                  Alts [Str ''px'', Str ''rem'', Str ''em'']])]"

definition extractSpacing :: "string \<Rightarrow> CSSValue list option" where
  "extractSpacing css = do {
     ms \<leftarrow> exec_all True spacingRegex None css;
     Some (map (\<lambda>m. \<lparr>v_type = Spacing, v_value = group_text m 2, v_line = None,
                      v_property = Some (group_text m 1)\<rparr>) ms)
   }"

text \<open>
  \<open>/font-size:\s*([\\d.]+(?:px|rem|em))/gi\<close>: a regular expression literal, where
  \<open>[\\d.]\<close> is the class of the backslash, the letter d and the dot.
\<close>

definition cls_backslash_d_dot :: regex where
  "cls_backslash_d_dot =
     Cls False [(CHR 0x5C, CHR 0x5C), (CHR ''d'', CHR ''d''), (CHR ''.'', CHR ''.'')]"

definition fontSizeRegex :: regex where
  "fontSizeRegex = Seqs [Str ''font-size:'', Star cls_space,
     Grp 1 (Seqs [Plus cls_backslash_d_dot, Alts [Str ''px'', Str ''rem'', Str ''em'']])]"

definition extractFontSizes :: "string \<Rightarrow> CSSValue list option" where
  "extractFontSizes css = do {
     ms \<leftarrow> exec_all True fontSizeRegex None css;
     Some (map (\<lambda>m. \<lparr>v_type = FontSize, v_value = group_text m 1, v_line = None,
                      v_property = Some ''font-size''\<rparr>) ms)
   }"

text \<open>
  \<open>/font-weight:\s*(\\d{3}|normal|bold|lighter|bolder)/gi\<close>: in the literal,
  \<open>\\d{3}\<close> is a backslash followed by three letters d.
\<close>

definition fontWeightRegex :: regex where
  "fontWeightRegex = Seqs [Str ''font-weight:'', Star cls_space,
     Grp 1 (Alts [Seqs [Chr (CHR 0x5C), Rep 3 3 (Chr CHR ''d'')],
                  Str ''normal'', Str ''bold'', Str ''lighter'', Str ''bolder''])]"

definition extractFontWeights :: "string \<Rightarrow> CSSValue list option" where
  "extractFontWeights css = do {
     ms \<leftarrow> exec_all True fontWeightRegex None css;
     Some (map (\<lambda>m. \<lparr>v_type = FontWeight, v_value = group_text m 1, v_line = None,
                      v_property = Some ''font-weight''\<rparr>) ms)
   }"

text \<open>\<open>/font-family:\s*([^;]+)/gi\<close>\<close>

definition fontFamilyRegex :: regex where
  "fontFamilyRegex = Seqs [Str ''font-family:'', Star cls_space,
     Grp 1 (Plus (Cls True [(CHR '';'', CHR '';'')]))]"

definition extractFontFamilies :: "string \<Rightarrow> CSSValue list option" where
  "extractFontFamilies css = do {
     ms \<leftarrow> exec_all True fontFamilyRegex None css;
     Some (map (\<lambda>m. \<lparr>v_type = FontFamily, v_value = trim (group_text m 1), v_line = None,
                      v_property = Some ''font-family''\<rparr>) ms)
   }"

text \<open>\<open>/border-radius:\s*([\\d.]+(?:px|rem|em|%))/gi\<close>\<close>

definition borderRadiusRegex :: regex where
  "borderRadiusRegex = Seqs [Str ''border-radius:'', Star cls_space,
     Grp 1 (Seqs [Plus cls_backslash_d_dot,
                  Alts [Str ''px'', Str ''rem'', Str ''em'', Str ''%'']])]"

definition extractBorderRadius :: "string \<Rightarrow> CSSValue list option" where
  "extractBorderRadius css = do {
     ms \<leftarrow> exec_all True borderRadiusRegex None css;
     Some (map (\<lambda>m. \<lparr>v_type = BorderRadius, v_value = group_text m 1, v_line = None,
                      v_property = Some ''border-radius''\<rparr>) ms)
   }"

text \<open>\<open>/box-shadow:\s*([^;]+)/gi\<close>\<close>

definition shadowRegex :: regex where
  "shadowRegex = Seqs [Str ''box-shadow:'', Star cls_space,
     Grp 1 (Plus (Cls True [(CHR '';'', CHR '';'')]))]"

definition extractShadows :: "string \<Rightarrow> CSSValue list option" where
  "extractShadows css = do {
     ms \<leftarrow> exec_all True shadowRegex None css;
     Some (map (\<lambda>m. \<lparr>v_type = Shadow, v_value = trim (group_text m 1), v_line = None,
                      v_property = Some ''box-shadow''\<rparr>) ms)
   }"

definition extractAllValues :: "string \<Rightarrow> CSSValue list option" where
  "extractAllValues css = do {
     colors \<leftarrow> extractColors css;
     spacing \<leftarrow> extractSpacing css;
     sizes \<leftarrow> extractFontSizes css;
     weights \<leftarrow> extractFontWeights css;
     families \<leftarrow> extractFontFamilies css;
     radii \<leftarrow> extractBorderRadius css;
     shadows \<leftarrow> extractShadows css;
     Some (colors @ spacing @ sizes @ weights @ families @ radii @ shadows)
   }"

text \<open>\<open>v.toLowerCase().replace(/\s+/g, '')\<close>: every run of white space is removed.\<close>

definition normalizeValue :: "string \<Rightarrow> string" where
  "normalizeValue v = filter (\<lambda>c. \<not> is_space c) (toLowerCase v)"

fun findMatchingToken :: "string \<Rightarrow> DesignToken list \<Rightarrow> string option" where
  "findMatchingToken v [] = None"
| "findMatchingToken v (token # tokens) =
     (if normalizeValue (t_value token) = normalizeValue v then Some (t_name token)
      else findMatchingToken v tokens)"

section \<open>Token validation (\<open>tools/validate.ts\<close>)\<close>

datatype issue_type = HardCodedValue | MissingToken | DeprecatedToken

datatype severity = Error | Warning | Info

record ValidationIssue =
  i_type :: issue_type
  i_value :: string
  i_line :: "nat option"
  i_property :: "string option"
  i_suggestion :: "string option"
  i_severity :: severity

record ValidationSummary =
  hardCodedValues :: nat
  missingTokens :: nat
  totalChecked :: nat

record ValidationReport =
  valid :: bool
  issueCount :: nat
  issues :: "ValidationIssue list"
  summary :: ValidationSummary

text \<open>The predicate of \<open>tokens.filter\<close> in \<open>suggestTokenForValue\<close>.\<close>

definition categoryFilter :: "CSSValue \<Rightarrow> DesignToken \<Rightarrow> bool" where
  "categoryFilter v t =
     (if v_type v = Color then t_category t = ''color''
      else if v_type v = Spacing then t_category t = ''spacing''
      else if v_type v = FontSize then str_includes (t_name t) ''font-size''
      else if v_type v = FontWeight then str_includes (t_name t) ''font-weight''
      else if v_type v = BorderRadius then t_category t = ''border''
      else if v_type v = Shadow then t_category t = ''shadow''
      else False)"

definition suggestTokenForValue :: "CSSValue \<Rightarrow> DesignToken list \<Rightarrow> string" where
  "suggestTokenForValue v tokens =
     (let categoryTokens = filter (categoryFilter v) tokens in
      case categoryTokens of
        [] \<Rightarrow> ''No matching tokens found''
      | closest # _ \<Rightarrow>
          ''Consider using token: '' @ t_name closest @ '' ('' @ t_value closest @ '')'')"

text \<open>
  \<open>if (!matchingToken)\<close> holds for \<open>null\<close> and for the empty string, so a match on a
  token whose name is empty counts as no match.
\<close>

definition truthy :: "string option \<Rightarrow> bool" where
  "truthy r = (case r of None \<Rightarrow> False | Some n \<Rightarrow> n \<noteq> [])"

definition validateTokenUsage :: "string \<Rightarrow> DesignToken list \<Rightarrow> ValidationReport option" where
  "validateTokenUsage code tokens = do {
     extractedValues \<leftarrow> extractAllValues code;
     let found = concat (map (\<lambda>v.
           if \<not> truthy (findMatchingToken (v_value v) tokens)
           then [\<lparr>i_type = HardCodedValue, i_value = v_value v, i_line = v_line v,
                  i_property = v_property v,
                  i_suggestion = Some (suggestTokenForValue v tokens),
                  i_severity = Warning\<rparr>]
           else []) extractedValues);
     Some \<lparr>valid = (length found = 0), issueCount = length found, issues = found,
           summary = \<lparr>hardCodedValues = length (filter (\<lambda>i. i_type i = HardCodedValue) found),
                      missingTokens = 0, totalChecked = length extractedValues\<rparr>\<rparr>
   }"

section \<open>Numbers read from text\<close>

text \<open>
  The value of a digit in \<open>parseInt\<close>: \<open>0\<close>-\<open>9\<close>, then the letters of either case
  from 10 on.
\<close>

definition digit_value :: "char \<Rightarrow> int option" where
  "digit_value c = (let n = (of_char c :: int) in
     if 48 \<le> n \<and> n \<le> 57 then Some (n - 48)
     else if 97 \<le> n \<and> n \<le> 122 then Some (n - 87)
     else if 65 \<le> n \<and> n \<le> 90 then Some (n - 55)
     else None)"

definition is_radix_digit :: "int \<Rightarrow> char \<Rightarrow> bool" where
  "is_radix_digit R c = (case digit_value c of None \<Rightarrow> False | Some d \<Rightarrow> d < R)"

definition digits_value :: "int \<Rightarrow> string \<Rightarrow> int" where
  "digits_value R ds =
     foldl (\<lambda>acc c. acc * R + (case digit_value c of Some d \<Rightarrow> d | None \<Rightarrow> 0)) 0 ds"

text \<open>
  \<open>parseInt(string, radix)\<close> as ECMAScript defines it; radix 0 stands for an absent
  radix and \<open>None\<close> for NaN. Leading white space is skipped, a sign is read, a
  \<open>0x\<close> prefix is dropped for radix 16 or an absent radix, and the longest prefix
  of digits of the radix is the value: what follows it is ignored.
\<close>

definition parseInt :: "string \<Rightarrow> int \<Rightarrow> int option" where
  "parseInt str radix =
     (let s = dropWhile is_space str;
          sgn = (if startsWith s ''-'' \<and> s \<noteq> [] then - 1 else (1::int));
          s1 = (if s \<noteq> [] \<and> (hd s = CHR ''-'' \<or> hd s = CHR ''+'') then tl s else s);
          stripPrefix = (radix = 0 \<or> radix = 16);
          R = (if radix = 0 then 10 else radix);
          hasPrefix = (stripPrefix \<and> (startsWith s1 ''0x'' \<or> startsWith s1 ''0X''));
          s2 = (if hasPrefix then drop 2 s1 else s1);
          R' = (if hasPrefix then 16 else R);
          z = takeWhile (is_radix_digit R') s2
      in if radix \<noteq> 0 \<and> (radix < 2 \<or> 36 < radix) then None
         else if z = [] then None
         else Some (sgn * digits_value R' z))"


section \<open>Migration suggestions (\<open>tools/migrate.ts\<close>)\<close>







text \<open>
  \<open>Array.prototype.sort\<close> with a comparator: a stable sort (ECMAScript 2019), here by
  insertion. A positive \<open>cmp a b\<close> puts \<open>a\<close> after \<open>b\<close>.
\<close>

fun insort_cmp :: "('a \<Rightarrow> 'a \<Rightarrow> 'n::linordered_field) \<Rightarrow> 'a \<Rightarrow> 'a list \<Rightarrow> 'a list" where
  "insort_cmp cmp x [] = [x]"
| "insort_cmp cmp x (y # ys) = (if cmp x y > 0 then y # insort_cmp cmp x ys else x # y # ys)"

definition js_sort :: "('a \<Rightarrow> 'a \<Rightarrow> 'n::linordered_field) \<Rightarrow> 'a list \<Rightarrow> 'a list" where
  "js_sort cmp xs = foldr (insort_cmp cmp) xs []"




section \<open>Colour utilities (\<open>utils/color.ts\<close>)\<close>

record RGB =
  rgb_r :: int
  rgb_g :: int
  rgb_b :: int

datatype score = ScoreFail | ScoreAA | ScoreAAA

text \<open>
  Contrast ratios are real numbers here: the arithmetic of doubles is taken as exact,
  and \<open>Math.pow\<close> as the real power.
\<close>

record ContrastResult =
  ratio :: real
  wcagAA :: bool
  wcagAAA :: bool
  score :: score

text \<open>
  \<open>hexToRgb\<close>: a leading \<open>#\<close> is removed, three characters are doubled, any length
  but six fails, and each pair of characters goes through \<open>parseInt(_, 16)\<close>; the
  result is \<open>null\<close> when one of the three is NaN.
\<close>

definition hexToRgb :: "string \<Rightarrow> RGB option" where
  "hexToRgb hex0 =
     (let hex1 = (case hex0 of [] \<Rightarrow> [] | c # cs \<Rightarrow> if c = CHR ''#'' then cs else c # cs);
          hex = (if length hex1 = 3 then concat (map (\<lambda>c. [c, c]) hex1) else hex1)
      in if length hex \<noteq> 6 then None
         else (case (parseInt (substring hex 0 2) 16, parseInt (substring hex 2 4) 16,
                     parseInt (substring hex 4 6) 16) of
                 (Some r, Some g, Some b) \<Rightarrow> Some \<lparr>rgb_r = r, rgb_g = g, rgb_b = b\<rparr>
               | _ \<Rightarrow> None))"

text \<open>\<open>/rgba?\((\d+),\s*(\d+),\s*(\d+)/\<close>\<close>

definition rgbStringRegex :: regex where
  "rgbStringRegex = Seqs [Str ''rgb'', Opt (Chr CHR ''a''), Chr CHR ''('',
     Grp 1 (Plus cls_digit), Chr CHR '','', Star cls_space,
     Grp 2 (Plus cls_digit), Chr CHR '','', Star cls_space,
     Grp 3 (Plus cls_digit)]"

text \<open>
  The three groups are runs of digits, for which \<open>parseInt\<close> is never NaN; the last
  case below is not reached.
\<close>

definition rgbStringToRgb :: "string \<Rightarrow> RGB option" where
  "rgbStringToRgb rgbString =
     (case rx_first False rgbStringRegex rgbString of
        None \<Rightarrow> None
      | Some m \<Rightarrow>
          (case (parseInt (group_text m 1) 0, parseInt (group_text m 2) 0,
                 parseInt (group_text m 3) 0) of
             (Some r, Some g, Some b) \<Rightarrow> Some \<lparr>rgb_r = r, rgb_g = g, rgb_b = b\<rparr>
           | _ \<Rightarrow> None))"

definition parseColor :: "string \<Rightarrow> RGB option" where
  "parseColor color =
     (let trimmed = trim color in
      if startsWith trimmed ''#'' then hexToRgb trimmed
      else if startsWith trimmed ''rgb'' then rgbStringToRgb trimmed
      else None)"

definition linear_channel :: "int \<Rightarrow> real" where
  "linear_channel c =
     (let s = real_of_int c / 255 in
      if s \<le> 3928 / 100000 then s / (1292 / 100)
      else ((s + 55 / 1000) / (1055 / 1000)) powr (24 / 10))"

definition getRelativeLuminance :: "RGB \<Rightarrow> real" where
  "getRelativeLuminance rgb =
     2126 / 10000 * linear_channel (rgb_r rgb)
     + 7152 / 10000 * linear_channel (rgb_g rgb)
     + 722 / 10000 * linear_channel (rgb_b rgb)"

definition getContrastRatio :: "string \<Rightarrow> string \<Rightarrow> real option" where
  "getContrastRatio color1 color2 =
     (case (parseColor color1, parseColor color2) of
        (Some rgb1, Some rgb2) \<Rightarrow>
          (let l1 = getRelativeLuminance rgb1; l2 = getRelativeLuminance rgb2;
               lighter = max l1 l2; darker = min l1 l2
           in Some ((lighter + 5 / 100) / (darker + 5 / 100)))
      | _ \<Rightarrow> None)"

text \<open>\<open>Math.round\<close>: the nearest integer, a half rounded up.\<close>

definition js_round :: "'a::floor_ceiling \<Rightarrow> int" where
  "js_round x = \<lfloor>x + 1 / 2\<rfloor>"

definition checkContrast :: "string \<Rightarrow> string \<Rightarrow> ContrastResult option" where
  "checkContrast foreground background =
     (case getContrastRatio foreground background of
        None \<Rightarrow> None
      | Some rt \<Rightarrow>
          (let aa = (rt \<ge> 45 / 10); aaa = (rt \<ge> 7) in
           Some \<lparr>ratio = real_of_int (js_round (rt * 100)) / 100,
                 wcagAA = aa, wcagAAA = aaa,
                 score = (if aaa then ScoreAAA else if aa then ScoreAA else ScoreFail)\<rparr>))"

section \<open>Contrast of tokens (\<open>tools/accessibility.ts\<close>)\<close>

record ContrastCheckResult =
  foregroundToken :: string
  backgroundToken :: string
  foregroundValue :: string
  backgroundValue :: string
  contrast :: "ContrastResult option"
  passes :: bool
  recommendation :: string

fun findBetterLoop :: "DesignToken list \<Rightarrow> string \<Rightarrow> string" where
  "findBetterLoop [] bgValue = ''No alternative tokens found with sufficient contrast''"
| "findBetterLoop (token # rest) bgValue =
     (case checkContrast (t_value token) bgValue of
        Some c \<Rightarrow>
          if wcagAA c
          then ''Try using '' @ t_name token @ '' ('' @ t_value token @ '') for better contrast''
          else findBetterLoop rest bgValue
      | None \<Rightarrow> findBetterLoop rest bgValue)"

definition findBetterTokenCombination ::
  "DesignToken \<Rightarrow> DesignToken list \<Rightarrow> string \<Rightarrow> string" where
  "findBetterTokenCombination currentToken allTokens bgValue =
     findBetterLoop (filter (\<lambda>t. t_category t = ''color'') allTokens) bgValue"

text \<open>
  \<open>checkTokenContrast\<close> has no \<open>throw\<close> and calls nothing that throws: every path
  ends in a \<open>return\<close> of a result object, so the model is a total function into the
  result record.
\<close>

definition checkTokenContrast ::
  "string \<Rightarrow> string \<Rightarrow> DesignToken list \<Rightarrow> ContrastCheckResult" where
  "checkTokenContrast fgName bgName tokens =
     (case (List.find (\<lambda>t. t_name t = fgName) tokens,
            List.find (\<lambda>t. t_name t = bgName) tokens) of
        (Some fgToken, Some bgToken) \<Rightarrow>
          (case checkContrast (t_value fgToken) (t_value bgToken) of
             None \<Rightarrow>
               \<lparr>foregroundToken = fgName, backgroundToken = bgName,
                foregroundValue = t_value fgToken, backgroundValue = t_value bgToken,
                contrast = None, passes = False,
                recommendation = ''Unable to calculate contrast (non-color tokens?)''\<rparr>
           | Some c \<Rightarrow>
               \<lparr>foregroundToken = fgName, backgroundToken = bgName,
                foregroundValue = t_value fgToken, backgroundValue = t_value bgToken,
                contrast = Some c, passes = wcagAA c,
                recommendation =
                  (if \<not> wcagAA c
                   then findBetterTokenCombination fgToken tokens (t_value bgToken)
                   else [])\<rparr>)
      | _ \<Rightarrow>
          \<lparr>foregroundToken = fgName, backgroundToken = bgName,
           foregroundValue = [], backgroundValue = [],
           contrast = None, passes = False, recommendation = ''Token not found''\<rparr>)"

text \<open>The comparator of the final sort: 0 when either result has no contrast.\<close>

definition contrast_cmp :: "ContrastCheckResult \<Rightarrow> ContrastCheckResult \<Rightarrow> real" where
  "contrast_cmp a b =
     (case (contrast a, contrast b) of
        (Some ca, Some cb) \<Rightarrow> ratio cb - ratio ca
      | _ \<Rightarrow> 0)"

text \<open>
  With results that lack a contrast the comparator is not a consistent ordering, and
  the order \<open>Array.prototype.sort\<close> then produces is left to the implementation: the
  sorting routine is the first argument.
\<close>

definition checkAllCombinations ::
  "((ContrastCheckResult \<Rightarrow> ContrastCheckResult \<Rightarrow> real)
      \<Rightarrow> ContrastCheckResult list \<Rightarrow> ContrastCheckResult list)
   \<Rightarrow> string \<Rightarrow> DesignToken list \<Rightarrow> ContrastCheckResult list" where
  "checkAllCombinations sort_impl bgName tokens =
     (case List.find (\<lambda>t. t_name t = bgName) tokens of
        None \<Rightarrow> []
      | Some bgToken \<Rightarrow>
          (let colorTokens = filter (\<lambda>t. t_category t = ''color'' \<and> t_name t \<noteq> bgName) tokens;
               results = map (\<lambda>fgToken. checkTokenContrast (t_name fgToken) bgName tokens)
                             colorTokens
           in sort_impl contrast_cmp results))"

section \<open>Theme generation (\<open>tools/theme-generator.ts\<close>)\<close>

text \<open>
  A number that \<open>hexToHSL\<close> returns: \<open>Math.round\<close> of a finite number, NaN, or
  \<open>Infinity\<close> (a positive number divided by zero).
\<close>

datatype jsnum = Num int | NaN | PosInfinity

record HSL =
  hsl_h :: jsnum
  hsl_s :: jsnum
  hsl_l :: jsnum

text \<open>\<open>hex.replace('#', '')\<close>: the first \<open>#\<close>, wherever it is, is removed.\<close>

fun remove_first :: "char \<Rightarrow> string \<Rightarrow> string" where
  "remove_first x [] = []"
| "remove_first x (c # cs) = (if c = x then cs else c # remove_first x cs)"

text \<open>
  The body of \<open>hexToHSL\<close> on three channels that are numbers, already divided by 255.
  The arithmetic is exact (rationals), where the source computes in doubles.
\<close>

definition hsl_of_channels :: "rat \<Rightarrow> rat \<Rightarrow> rat \<Rightarrow> HSL" where
  "hsl_of_channels r g b =
     (let mx = max r (max g b); mn = min r (min g b); l = (mx + mn) / 2 in
      if mx \<noteq> mn then
        (let d = mx - mn;
             den = (if l > 1 / 2 then 2 - mx - mn else mx + mn);
             h = (if mx = r then ((g - b) / d + (if g < b then 6 else 0)) / 6
                  else if mx = g then ((b - r) / d + 2) / 6
                  else ((r - g) / d + 4) / 6)
         in \<lparr>hsl_h = Num (js_round (h * 360)),
              hsl_s = (if den = 0 then PosInfinity else Num (js_round (d / den * 100))),
              hsl_l = Num (js_round (l * 100))\<rparr>)
      else \<lparr>hsl_h = Num 0, hsl_s = Num 0, hsl_l = Num (js_round (l * 100))\<rparr>)"

text \<open>
  When a channel is NaN, so are \<open>max\<close>, \<open>min\<close>, \<open>l\<close>, \<open>d\<close> and \<open>s\<close>; no case of the
  \<open>switch\<close> is taken, and \<open>h\<close> stays 0.
\<close>

definition hexToHSL :: "string \<Rightarrow> HSL" where
  "hexToHSL hex0 =
     (let hex = remove_first CHR ''#'' hex0 in
      case (parseInt (substring hex 0 2) 16, parseInt (substring hex 2 4) 16,
            parseInt (substring hex 4 6) 16) of
        (Some r, Some g, Some b) \<Rightarrow>
          hsl_of_channels (of_int r / 255) (of_int g / 255) (of_int b / 255)
      | _ \<Rightarrow> \<lparr>hsl_h = Num 0, hsl_s = NaN, hsl_l = NaN\<rparr>)"

text \<open>\<open>String(n)\<close> of such a number.\<close>

fun show_nat :: "nat \<Rightarrow> string" where
  "show_nat n = (if n < 10 then [char_of (48 + n)]
                 else show_nat (n div 10) @ [char_of (48 + n mod 10)])"

declare show_nat.simps [simp del]

definition show_int :: "int \<Rightarrow> string" where
  "show_int i = (if i < 0 then CHR ''-'' # show_nat (nat (- i)) else show_nat (nat i))"

definition jsnum_to_string :: "jsnum \<Rightarrow> string" where
  "jsnum_to_string n = (case n of Num i \<Rightarrow> show_int i | NaN \<Rightarrow> ''NaN''
                        | PosInfinity \<Rightarrow> ''Infinity'')"

text \<open>
  \<open>BrandColors\<close>: an object, here the list of its entries in insertion order; a key
  may be present with the value \<open>undefined\<close> (\<open>None\<close>).
\<close>

type_synonym BrandColors = "(string \<times> string option) list"

definition defaults :: BrandColors where
  "defaults = [(''primary'', Some ''#2D6FDB''), (''neutral'', Some ''#757882''),
               (''alerts-warning'', Some ''#FFD93D''), (''alerts-danger'', Some ''#FF6B94''),
               (''alerts-info'', Some ''#2D6FDB''), (''alerts-notice'', Some ''#6ACF71'')]"

text \<open>
  Setting a property keeps the place of a key that exists and appends a new key;
  \<open>{...defaults, ...brandColors}\<close> sets the entries of \<open>brandColors\<close> in order.
\<close>

fun obj_set :: "string \<Rightarrow> string option \<Rightarrow> BrandColors \<Rightarrow> BrandColors" where
  "obj_set k v [] = [(k, v)]"
| "obj_set k v ((k', v') # rest) =
     (if k' = k then (k, v) # rest else (k', v') # obj_set k v rest)"

definition spread :: "BrandColors \<Rightarrow> BrandColors \<Rightarrow> BrandColors" where
  "spread base ext = foldl (\<lambda>acc kv. obj_set (fst kv) (snd kv) acc) base ext"

definition family_tokens :: "string \<Rightarrow> HSL \<Rightarrow> DesignToken list" where
  "family_tokens familyName hsl =
     [\<lparr>t_name = ''op-color-'' @ familyName @ ''-h'',
       t_value = jsnum_to_string (hsl_h hsl),
       t_category = ''color'',
       t_description = Some (familyName @ '' color hue (HSL) - drives all '' @ familyName
                             @ '' scale tokens'')\<rparr>,
      \<lparr>t_name = ''op-color-'' @ familyName @ ''-s'',
       t_value = jsnum_to_string (hsl_s hsl) @ ''%'',
       t_category = ''color'',
       t_description = Some (familyName @ '' color saturation (HSL)'')\<rparr>,
      \<lparr>t_name = ''op-color-'' @ familyName @ ''-l'',
       t_value = jsnum_to_string (hsl_l hsl) @ ''%'',
       t_category = ''color'',
       t_description = Some (familyName @ '' color lightness (HSL)'')\<rparr>]"

text \<open>\<open>if (!hex) continue\<close> skips a family whose value is \<open>undefined\<close> or empty.\<close>

definition generateColorTokens :: "BrandColors \<Rightarrow> DesignToken list" where
  "generateColorTokens brandColors =
     concat (map (\<lambda>(family, hex).
                    case hex of
                      None \<Rightarrow> []
                    | Some h \<Rightarrow> if h = [] then [] else family_tokens family (hexToHSL h))
                 (spread defaults brandColors))"

text \<open>
  The token list of \<open>generateTheme\<close>. The catalog \<open>designTokens\<close>, a constant of
  \<open>optics-data.ts\<close>, is the first argument; the three texts rendered from the token
  list (CSS, Figma JSON, documentation) are left out.
\<close>

definition generateTheme :: "DesignToken list \<Rightarrow> BrandColors \<Rightarrow> DesignToken list" where
  "generateTheme designTokens brandColors =
     (if brandColors \<noteq> [] then
        (let customColorTokens = generateColorTokens brandColors in
         map (\<lambda>token. case List.find (\<lambda>ct. t_name ct = t_name token) customColorTokens of
                         Some customToken \<Rightarrow> customToken
                       | None \<Rightarrow> token)
             designTokens)
      else designTokens)"

section \<open>Replacement of hard-coded values (\<open>tools/replace.ts\<close>)\<close>

record ReplacementSuggestion =
  r_original :: string
  r_replacement :: string
  r_tokenName :: string
  r_property :: "string option"

record ReplacementResult =
  originalCode :: string
  fixedCode :: string
  replacements :: "ReplacementSuggestion list"
  replacementCount :: nat

text \<open>
  The replacement text of \<open>String.prototype.replace\<close> for a match without groups:
  \<open>$$\<close> is a dollar sign, \<open>$&\<close> the matched text, \<open>$`\<close> the text before the match and
  \<open>$'\<close> the text after it; any other \<open>$\<close> stands for itself.
\<close>

fun getSubstitution :: "string \<Rightarrow> string \<Rightarrow> string \<Rightarrow> string \<Rightarrow> string" where
  "getSubstitution matched pre post [] = []"
| "getSubstitution matched pre post [c] = [c]"
| "getSubstitution matched pre post (c # c' # rest) =
     (if c = CHR ''$'' \<and> c' = CHR ''$'' then CHR ''$'' # getSubstitution matched pre post rest
      else if c = CHR ''$'' \<and> c' = CHR ''&'' then matched @ getSubstitution matched pre post rest
      else if c = CHR ''$'' \<and> c' = CHR ''`'' then pre @ getSubstitution matched pre post rest
      else if c = CHR ''$'' \<and> c' = CHR 0x27 then post @ getSubstitution matched pre post rest
      else c # getSubstitution matched pre post (c' # rest))"

text \<open>
  \<open>text.replace(new RegExp(escapeRegex(pat), 'g'), template)\<close>. \<open>escapeRegex\<close> puts a
  backslash before every character that has a meaning in a regular expression, so the
  expression matches \<open>pat\<close> literally. Every occurrence is replaced, from left to
  right and without overlap; the empty text occurs at every position. \<open>pre\<close> is
  the part of the text already passed.
\<close>

function replace_all_literal :: "string \<Rightarrow> string \<Rightarrow> string \<Rightarrow> string \<Rightarrow> string" where
  "replace_all_literal pat template pre s =
     (if startsWith s pat then
        (let sub = getSubstitution pat pre (drop (length pat) s) template in
         if pat = [] then
           (case s of [] \<Rightarrow> sub
            | c # cs \<Rightarrow> sub @ c # replace_all_literal pat template (pre @ [c]) cs)
         else sub @ replace_all_literal pat template (pre @ pat) (drop (length pat) s))
      else (case s of [] \<Rightarrow> []
            | c # cs \<Rightarrow> c # replace_all_literal pat template (pre @ [c]) cs))"
  by pat_completeness auto
termination
proof (relation "measure (\<lambda>(pat, template, pre, s). length s)")
  show "wf (measure (\<lambda>(pat, template, pre, s). length s))" by simp
next
  fix pat template pre :: string and s sub :: string
  assume a: "startsWith s pat" "pat \<noteq> []"
  then have "s \<noteq> []" by (auto simp: startsWith_def)
  with a show "((pat, template, pre @ pat, drop (length pat) s), (pat, template, pre, s))
             \<in> measure (\<lambda>(pat, template, pre, s). length s)"
    by simp
qed simp_all

text \<open>One step of the loop over the extracted values: the suggestions and the code so far.\<close>

definition replace_step ::
  "DesignToken list \<Rightarrow> bool \<Rightarrow> ReplacementSuggestion list \<times> string \<Rightarrow> CSSValue
   \<Rightarrow> ReplacementSuggestion list \<times> string" where
  "replace_step tokens autofix acc v =
     (case findMatchingToken (v_value v) tokens of
        None \<Rightarrow> acc
      | Some matchingToken \<Rightarrow>
          if matchingToken = [] then acc
          else (let replacement = ''var(--'' @ matchingToken @ '')'' in
                (fst acc @ [\<lparr>r_original = v_value v, r_replacement = replacement,
                             r_tokenName = matchingToken, r_property = v_property v\<rparr>],
                 if autofix then replace_all_literal (v_value v) replacement [] (snd acc)
                 else snd acc)))"

definition replaceHardCodedValues ::
  "string \<Rightarrow> DesignToken list \<Rightarrow> bool \<Rightarrow> ReplacementResult option" where
  "replaceHardCodedValues code tokens autofix = do {
     extractedValues \<leftarrow> extractAllValues code;
     let acc = foldl (replace_step tokens autofix) ([], code) extractedValues;
     Some \<lparr>originalCode = code,
           fixedCode = (if autofix then snd acc else code),
           replacements = fst acc,
           replacementCount = length (fst acc)\<rparr>
   }"

section \<open>Catalog entries used in the examples\<close>

text \<open>
  The first base tokens of \<open>designTokens\<close> in \<open>optics-data.ts\<close>, and two tokens of its
  earlier version: \<open>color-primary\<close> and \<open>spacing-md\<close>.
\<close>

definition tok_primary_h :: DesignToken where
  "tok_primary_h = \<lparr>t_name = ''op-color-primary-h'', t_value = ''216'',
     t_category = ''color'', t_description = Some ''Primary color hue (HSL)''\<rparr>"

definition tok_primary_s :: DesignToken where
  "tok_primary_s = \<lparr>t_name = ''op-color-primary-s'', t_value = ''58%'',
     t_category = ''color'', t_description = Some ''Primary color saturation (HSL)''\<rparr>"

definition tok_primary_l :: DesignToken where
  "tok_primary_l = \<lparr>t_name = ''op-color-primary-l'', t_value = ''48%'',
     t_category = ''color'', t_description = Some ''Primary color lightness (HSL)''\<rparr>"

definition tok_neutral_h :: DesignToken where
  "tok_neutral_h = \<lparr>t_name = ''op-color-neutral-h'', t_value = ''216'',
     t_category = ''color'',
     t_description = Some ''Neutral color hue (HSL, inherits from primary)''\<rparr>"

definition tok_neutral_s :: DesignToken where
  "tok_neutral_s = \<lparr>t_name = ''op-color-neutral-s'', t_value = ''4%'',
     t_category = ''color'', t_description = Some ''Neutral color saturation (HSL)''\<rparr>"

definition tok_neutral_l :: DesignToken where
  "tok_neutral_l = \<lparr>t_name = ''op-color-neutral-l'', t_value = ''48%'',
     t_category = ''color'', t_description = Some ''Neutral color lightness (HSL)''\<rparr>"

text \<open>The first six entries of \<open>designTokens\<close>.\<close>

definition designTokens_base :: "DesignToken list" where
  "designTokens_base = [tok_primary_h, tok_primary_s, tok_primary_l,
                        tok_neutral_h, tok_neutral_s, tok_neutral_l]"

definition tok_color_primary :: DesignToken where
  "tok_color_primary = \<lparr>t_name = ''color-primary'', t_value = ''#0066CC'',
     t_category = ''color'',
     t_description = Some ''Primary brand color used for main actions and emphasis''\<rparr>"

definition tok_spacing_md :: DesignToken where
  "tok_spacing_md = \<lparr>t_name = ''spacing-md'', t_value = ''16px'',
     t_category = ''spacing'', t_description = Some ''Medium spacing unit (base)''\<rparr>"





definition button_css :: string where
  "button_css = ''.button { background: #0066CC; padding: 16px; font-size: 14px; }''"

section \<open>Progress of the matcher and end of the extraction loops\<close>

lemma star_iter_le:
  assumes "\<And>st st'. st' \<in> set (f st) \<Longrightarrow> length (st_rest st') \<le> length (st_rest st)"
  shows "st' \<in> set (star_iter n f st) \<Longrightarrow> length (st_rest st') \<le> length (st_rest st)"
proof (induction n arbitrary: st)
  case 0
  then show ?case by simp
next
  case (Suc n)
  from Suc.prems consider "st' = st"
    | m where "m \<in> set (f st)" "st' \<in> set (star_iter n f m)"
    by auto
  then show ?case
  proof cases
    case 1
    then show ?thesis by simp
  next
    case 2
    from Suc.IH [OF 2(2)] assms [OF 2(1)] show ?thesis by simp
  qed
qed

lemma rep_iter_le:
  assumes "\<And>st st'. st' \<in> set (f st) \<Longrightarrow> length (st_rest st') \<le> length (st_rest st)"
  shows "st' \<in> set (rep_iter n lo f st) \<Longrightarrow> length (st_rest st') \<le> length (st_rest st)"
proof (induction n arbitrary: st lo)
  case 0
  then show ?case by (simp split: if_splits)
next
  case (Suc n)
  from Suc.prems consider "st' = st"
    | m where "m \<in> set (f st)" "st' \<in> set (rep_iter n (lo - 1) f m)"
    by (auto split: if_splits)
  then show ?case
  proof cases
    case 1
    then show ?thesis by simp
  next
    case 2
    from Suc.IH [OF 2(2)] assms [OF 2(1)] show ?thesis by simp
  qed
qed

lemma st_rest_triple [simp]: "st_rest (p, s, c) = s"
  by (simp add: st_rest_def)

lemma rmatch_le:
  "st' \<in> set (rmatch ic re st) \<Longrightarrow> length (st_rest st') \<le> length (st_rest st)"
proof (induction re arbitrary: st st')
  case (Seq a b)
  from Seq.prems obtain m where "m \<in> set (rmatch ic a st)" "st' \<in> set (rmatch ic b m)"
    by auto
  with Seq.IH show ?case by (meson le_trans)
next
  case (Star r)
  then show ?case using star_iter_le [of "rmatch ic r"] by simp
next
  case (Rep lo hi r)
  then show ?case using rep_iter_le [of "rmatch ic r"] by simp
next
  case (Grp n r)
  from Grp.prems obtain m where "m \<in> set (rmatch ic r st)" "st_rest st' = st_rest m"
    by auto
  with Grp.IH show ?case by simp
qed (auto split: list.splits if_splits)

lemma rep_iter_lt:
  assumes le: "\<And>st st'. st' \<in> set (f st) \<Longrightarrow> length (st_rest st') \<le> length (st_rest st)"
    and lt: "\<And>st st'. st' \<in> set (f st) \<Longrightarrow> length (st_rest st') < length (st_rest st)"
    and "0 < lo" and "st' \<in> set (rep_iter n lo f st)"
  shows "length (st_rest st') < length (st_rest st)"
proof (cases n)
  case 0
  with assms show ?thesis by simp
next
  case (Suc k)
  with assms obtain m where m: "m \<in> set (f st)" "st' \<in> set (rep_iter k (lo - 1) f m)"
    by auto
  from rep_iter_le [of f st' k "lo - 1" m] le m(2)
  have "length (st_rest st') \<le> length (st_rest m)" by blast
  with lt [OF m(1)] show ?thesis by simp
qed

lemma rmatch_lt:
  "consumes re \<Longrightarrow> st' \<in> set (rmatch ic re st) \<Longrightarrow> length (st_rest st') < length (st_rest st)"
proof (induction re arbitrary: st st')
  case (Seq a b)
  from Seq.prems obtain m where m: "m \<in> set (rmatch ic a st)" "st' \<in> set (rmatch ic b m)"
    by auto
  from Seq.prems(1) have "consumes a \<or> consumes b" by simp
  then show ?case
  proof
    assume "consumes a"
    from Seq.IH(1) [OF this m(1)] rmatch_le [OF m(2)] show ?thesis by simp
  next
    assume "consumes b"
    from Seq.IH(2) [OF this m(2)] rmatch_le [OF m(1)] show ?thesis by simp
  qed
next
  case (Alt a b)
  from Alt.prems have "consumes a" "consumes b"
    and "st' \<in> set (rmatch ic a st) \<or> st' \<in> set (rmatch ic b st)" by simp_all
  with Alt.IH show ?case by blast
next
  case (Rep lo hi r)
  then show ?case
    using rep_iter_lt [of "rmatch ic r" lo st' hi st] rmatch_le by auto
next
  case (Grp n r)
  from Grp.prems obtain m where "m \<in> set (rmatch ic r st)" "st_rest st' = st_rest m"
    by auto
  with Grp.IH Grp.prems(1) show ?case by simp
qed (auto split: list.splits if_splits)

lemma search_hit:
  "search ic re p s = Some (s0, st) \<Longrightarrow> \<exists>q. st \<in> set (rmatch ic re (q, s0, []))"
proof (induction s arbitrary: p)
  case Nil
  then obtain sts where "rmatch ic re (p, [], []) = st # sts" and "s0 = []"
    by (subst (asm) search.simps) (auto split: list.splits)
  then show ?case by (metis list.set_intros(1))
next
  case (Cons c cs)
  show ?case
  proof (cases "rmatch ic re (p, c # cs, [])")
    case Nil
    with Cons.prems have "search ic re (Some c) cs = Some (s0, st)"
      by (subst (asm) search.simps) simp
    from Cons.IH [OF this] show ?thesis .
  next
    case (Cons st1 sts)
    with Cons.prems have "s0 = c # cs" "st = st1"
      by (subst (asm) search.simps, simp)+
    with Cons show ?thesis by (metis list.set_intros(1))
  qed
qed

text \<open>The loop over the matches of an expression that always consumes input ends.\<close>

lemma exec_all_total:
  "consumes re \<Longrightarrow> \<exists>ms. exec_all ic re p s = Some ms"
proof (induction ic re p s rule: exec_all.induct)
  case (1 ic re p s)
  show ?case
  proof (cases "search ic re p s")
    case None
    then show ?thesis by (subst exec_all.simps) simp
  next
    case (Some hit)
    obtain s0 st where hit: "hit = (s0, st)" by (cases hit)
    from Some hit search_hit obtain q where "st \<in> set (rmatch ic re (q, s0, []))" by blast
    from rmatch_lt [OF "1.prems" this] have lt: "length (st_rest st) < length s0"
      by simp
    from "1.IH" [OF Some hit [symmetric] lt "1.prems"] obtain ms where
      "exec_all ic re (st_prev st) (st_rest st) = Some ms" by blast
    with Some hit lt show ?thesis by (subst exec_all.simps) simp
  qed
qed


text \<open>Every extraction loop ends: the eight expressions always consume input.\<close>

lemma regexes_consume:
  "consumes hexRegex" "consumes rgbRegex" "consumes spacingRegex" "consumes fontSizeRegex"
  "consumes fontWeightRegex" "consumes fontFamilyRegex" "consumes borderRadiusRegex"
  "consumes shadowRegex"
  by code_simp+

lemma extractAllValues_total: "\<exists>vs. extractAllValues css = Some vs"
proof -
  obtain m1 where m1: "exec_all False hexRegex None css = Some m1"
    using exec_all_total [OF regexes_consume(1)] by blast
  obtain m2 where m2: "exec_all False rgbRegex None css = Some m2"
    using exec_all_total [OF regexes_consume(2)] by blast
  obtain m3 where m3: "exec_all True spacingRegex None css = Some m3"
    using exec_all_total [OF regexes_consume(3)] by blast
  obtain m4 where m4: "exec_all True fontSizeRegex None css = Some m4"
    using exec_all_total [OF regexes_consume(4)] by blast
  obtain m5 where m5: "exec_all True fontWeightRegex None css = Some m5"
    using exec_all_total [OF regexes_consume(5)] by blast
  obtain m6 where m6: "exec_all True fontFamilyRegex None css = Some m6"
    using exec_all_total [OF regexes_consume(6)] by blast
  obtain m7 where m7: "exec_all True borderRadiusRegex None css = Some m7"
    using exec_all_total [OF regexes_consume(7)] by blast
  obtain m8 where m8: "exec_all True shadowRegex None css = Some m8"
    using exec_all_total [OF regexes_consume(8)] by blast
  show ?thesis
    by (simp add: extractAllValues_def extractColors_def extractSpacing_def
        extractFontSizes_def extractFontWeights_def extractFontFamilies_def
        extractBorderRadius_def extractShadows_def m1 m2 m3 m4 m5 m6 m7 m8)
qed

section \<open>The extraction scenario\<close>

text \<open>
  C1. On the text of the scenario the extraction returns two values, the colour and the
  spacing; no font size is extracted, because the class \<open>[\\d.]\<close> of the font-size
  expression holds the backslash, the letter d and the dot, and no digit. The two
  extracted values resolve to \<open>color-primary\<close> and \<open>spacing-md\<close>, and \<open>14px\<close> has no
  exact match.
\<close>

theorem extractAllValues_scenario:
  "extractAllValues button_css = Some
     [\<lparr>v_type = Color, v_value = ''#0066CC'', v_line = None, v_property = None\<rparr>,
      \<lparr>v_type = Spacing, v_value = ''16px'', v_line = None, v_property = Some ''padding''\<rparr>]
   \<and> extractFontSizes button_css = Some []
   \<and> findMatchingToken ''#0066CC'' [tok_color_primary, tok_spacing_md] = Some ''color-primary''
   \<and> findMatchingToken ''16px'' [tok_color_primary, tok_spacing_md] = Some ''spacing-md''
   \<and> findMatchingToken ''14px'' [tok_color_primary, tok_spacing_md] = None"
  by code_simp

section \<open>The ranges of the HSL triple\<close>












section \<open>Migration suggestions: threshold, order and length\<close>














section \<open>The suggestion of the validation path\<close>





section \<open>Parsing a hex colour\<close>

text \<open>
  C5. \<open>hexToRgb\<close> returns a colour for texts that hold characters other than hex
  digits: \<open>parseInt\<close> reads the hex digits at the start of each pair and ignores what
  follows, and it accepts a sign and leading white space, so a channel can be negative.
\<close>

theorem hexToRgb_malformed:
  "hexToRgb ''#12345g'' = Some \<lparr>rgb_r = 18, rgb_g = 52, rgb_b = 5\<rparr>
   \<and> hexToRgb ''#-1+2 3'' = Some \<lparr>rgb_r = - 1, rgb_g = 2, rgb_b = 3\<rparr>
   \<and> hexToRgb ''#g12345'' = None
   \<and> hexToRgb ''#0066CC'' = Some \<lparr>rgb_r = 0, rgb_g = 102, rgb_b = 204\<rparr>
   \<and> hexToRgb ''fff'' = Some \<lparr>rgb_r = 255, rgb_g = 255, rgb_b = 255\<rparr>"
  by code_simp

section \<open>Contrast of two tokens\<close>

text \<open>
  C6. \<open>checkTokenContrast\<close> is a total function into the result record. When either
  name has no entry in the catalog, the result has no contrast, does not pass and says
  that a token was not found; when both tokens exist and the value of either cannot be
  parsed as a colour, the result has no contrast, does not pass and carries the reason.
\<close>

theorem checkTokenContrast_structured:
  "(List.find (\<lambda>t. t_name t = fg) tokens = None \<or> List.find (\<lambda>t. t_name t = bg) tokens = None
      \<longrightarrow> checkTokenContrast fg bg tokens =
          \<lparr>foregroundToken = fg, backgroundToken = bg, foregroundValue = [],
           backgroundValue = [], contrast = None, passes = False,
           recommendation = ''Token not found''\<rparr>)
   \<and> (List.find (\<lambda>t. t_name t = fg) tokens = Some f
      \<and> List.find (\<lambda>t. t_name t = bg) tokens = Some b
      \<and> (parseColor (t_value f) = None \<or> parseColor (t_value b) = None)
      \<longrightarrow> checkTokenContrast fg bg tokens =
          \<lparr>foregroundToken = fg, backgroundToken = bg, foregroundValue = t_value f,
           backgroundValue = t_value b, contrast = None, passes = False,
           recommendation = ''Unable to calculate contrast (non-color tokens?)''\<rparr>)"
  by (auto simp: checkTokenContrast_def checkContrast_def getContrastRatio_def
           split: option.splits)

lemma contrast_examples:
  "List.find (\<lambda>t. t_name t = ''color-missing'') [tok_color_primary, tok_spacing_md] = None"
  "List.find (\<lambda>t. t_name t = ''color-primary'') [tok_color_primary, tok_spacing_md]
     = Some tok_color_primary"
  "List.find (\<lambda>t. t_name t = ''spacing-md'') [tok_color_primary, tok_spacing_md]
     = Some tok_spacing_md"
  "parseColor (t_value tok_spacing_md) = None"
  by code_simp+

theorem checkTokenContrast_structured_witness:
  "checkTokenContrast ''color-missing'' ''color-primary'' [tok_color_primary, tok_spacing_md] =
      \<lparr>foregroundToken = ''color-missing'', backgroundToken = ''color-primary'',
       foregroundValue = [], backgroundValue = [], contrast = None, passes = False,
       recommendation = ''Token not found''\<rparr>
   \<and> checkTokenContrast ''color-primary'' ''spacing-md'' [tok_color_primary, tok_spacing_md] =
      \<lparr>foregroundToken = ''color-primary'', backgroundToken = ''spacing-md'',
       foregroundValue = t_value tok_color_primary, backgroundValue = t_value tok_spacing_md,
       contrast = None, passes = False,
       recommendation = ''Unable to calculate contrast (non-color tokens?)''\<rparr>"
  using checkTokenContrast_structured [of "''color-missing''" "[tok_color_primary, tok_spacing_md]"
          "''color-primary''"]
        checkTokenContrast_structured [of "''color-primary''" "[tok_color_primary, tok_spacing_md]"
          "''spacing-md''" tok_color_primary tok_spacing_md]
  by (simp only: contrast_examples) simp

section \<open>Families without an override\<close>

text \<open>
  C7. With an override for the neutral family alone, the three base tokens of the
  primary family are replaced as well, by the values derived from the built-in default
  \<open>#2D6FDB\<close>: 217, 71% and 52%, where the catalog has 216, 58% and 48%. The spacing
  token is unchanged.
\<close>

theorem generateTheme_unsupplied_family:
  "generateTheme (designTokens_base @ [tok_spacing_md]) [(''neutral'', Some ''#808080'')] =
     [\<lparr>t_name = ''op-color-primary-h'', t_value = ''217'', t_category = ''color'',
       t_description = Some ''primary color hue (HSL) - drives all primary scale tokens''\<rparr>,
      \<lparr>t_name = ''op-color-primary-s'', t_value = ''71%'', t_category = ''color'',
       t_description = Some ''primary color saturation (HSL)''\<rparr>,
      \<lparr>t_name = ''op-color-primary-l'', t_value = ''52%'', t_category = ''color'',
       t_description = Some ''primary color lightness (HSL)''\<rparr>,
      \<lparr>t_name = ''op-color-neutral-h'', t_value = ''0'', t_category = ''color'',
       t_description = Some ''neutral color hue (HSL) - drives all neutral scale tokens''\<rparr>,
      \<lparr>t_name = ''op-color-neutral-s'', t_value = ''0%'', t_category = ''color'',
       t_description = Some ''neutral color saturation (HSL)''\<rparr>,
      \<lparr>t_name = ''op-color-neutral-l'', t_value = ''50%'', t_category = ''color'',
       t_description = Some ''neutral color lightness (HSL)''\<rparr>,
      tok_spacing_md]
   \<and> t_value tok_primary_h = ''216'' \<and> t_value tok_primary_s = ''58%''
   \<and> t_value tok_primary_l = ''48%''"
  by code_simp

section \<open>Exact lookup\<close>

lemma find_first:
  assumes "\<forall>w \<in> set pre. \<not> P w" and "P t"
  shows "List.find P (pre @ t # post) = Some t"
  using assms by (induction pre) simp_all

lemma findMatchingToken_find:
  "findMatchingToken v catalog =
     map_option t_name (List.find (\<lambda>w. normalizeValue (t_value w) = normalizeValue v) catalog)"
  by (induction catalog) simp_all

text \<open>
  C8, as the code has it. Looking up the stored value of a token \<open>t\<close> of the catalog
  returns the name of the first token, in catalog order, whose normalised value equals
  the normalised value of \<open>t\<close>. That token is \<open>t\<close> when no earlier token has the same
  normalised value, and the result is a name alone: the lookup computes no similarity.
\<close>

theorem findMatchingToken_own_value:
  assumes "t \<in> set catalog"
  shows "(\<exists>u. List.find (\<lambda>w. normalizeValue (t_value w) = normalizeValue (t_value t)) catalog
               = Some u
            \<and> findMatchingToken (t_value t) catalog = Some (t_name u))
         \<and> (catalog = pre @ t # post
            \<and> (\<forall>w \<in> set pre. normalizeValue (t_value w) \<noteq> normalizeValue (t_value t))
            \<longrightarrow> findMatchingToken (t_value t) catalog = Some (t_name t))"
proof (intro conjI impI)
  let ?P = "\<lambda>w. normalizeValue (t_value w) = normalizeValue (t_value t)"
  from assms have "\<exists>w \<in> set catalog. ?P w" by blast
  then obtain u where u: "List.find ?P catalog = Some u"
    by (cases "List.find ?P catalog") (auto simp: find_None_iff)
  then show "\<exists>u. List.find ?P catalog = Some u
      \<and> findMatchingToken (t_value t) catalog = Some (t_name u)"
    by (simp add: findMatchingToken_find)
next
  assume a: "catalog = pre @ t # post
      \<and> (\<forall>w \<in> set pre. normalizeValue (t_value w) \<noteq> normalizeValue (t_value t))"
  then have "List.find (\<lambda>w. normalizeValue (t_value w) = normalizeValue (t_value t))
      (pre @ t # post) = Some t"
    by (intro find_first) simp_all
  with a show "findMatchingToken (t_value t) catalog = Some (t_name t)"
    by (simp add: findMatchingToken_find)
qed

lemma find_216:
  "List.find (\<lambda>w. normalizeValue (t_value w) = normalizeValue (t_value tok_neutral_h))
     [tok_primary_h, tok_neutral_h] = Some tok_primary_h"
  by code_simp

lemma differ_216_58:
  "normalizeValue (t_value tok_primary_h) \<noteq> normalizeValue (t_value tok_primary_s)"
  by code_simp

theorem findMatchingToken_own_value_witness:
  "tok_neutral_h \<in> set [tok_primary_h, tok_neutral_h]
   \<and> findMatchingToken (t_value tok_neutral_h) [tok_primary_h, tok_neutral_h]
       = Some (t_name tok_primary_h)
   \<and> tok_primary_s \<in> set [tok_primary_h, tok_primary_s]
   \<and> findMatchingToken (t_value tok_primary_s) [tok_primary_h, tok_primary_s]
       = Some (t_name tok_primary_s)"
proof -
  have m: "tok_neutral_h \<in> set [tok_primary_h, tok_neutral_h]" by simp
  from findMatchingToken_own_value [OF m] obtain u where
    f: "List.find (\<lambda>w. normalizeValue (t_value w) = normalizeValue (t_value tok_neutral_h))
          [tok_primary_h, tok_neutral_h] = Some u"
    and r: "findMatchingToken (t_value tok_neutral_h) [tok_primary_h, tok_neutral_h]
          = Some (t_name u)"
    by blast
  from f have "u = tok_primary_h" by (simp only: find_216 option.inject)
  with r have 1: "findMatchingToken (t_value tok_neutral_h) [tok_primary_h, tok_neutral_h]
      = Some (t_name tok_primary_h)" by simp
  have m': "tok_primary_s \<in> set [tok_primary_h, tok_primary_s]" by simp
  have "[tok_primary_h, tok_primary_s] = [tok_primary_h] @ tok_primary_s # []" by simp
  moreover have "\<forall>w \<in> set [tok_primary_h].
      normalizeValue (t_value w) \<noteq> normalizeValue (t_value tok_primary_s)"
    using differ_216_58 by simp
  ultimately have 2: "findMatchingToken (t_value tok_primary_s) [tok_primary_h, tok_primary_s]
      = Some (t_name tok_primary_s)"
    using findMatchingToken_own_value [OF m', of "[tok_primary_h]" "[]"] by blast
  from m 1 m' 2 show ?thesis by blast
qed

text \<open>
  The statement of the specification fails on two tokens of the catalog itself: the
  hues of the primary and of the neutral family are both \<open>216\<close>, and the lookup of
  the neutral hue's value returns the primary hue.
\<close>

theorem findMatchingToken_own_value_counterexample:
  "tok_neutral_h \<in> set [tok_primary_h, tok_neutral_h]
   \<and> findMatchingToken (t_value tok_neutral_h) [tok_primary_h, tok_neutral_h]
       = Some ''op-color-primary-h''
   \<and> ''op-color-primary-h'' \<noteq> t_name tok_neutral_h"
  by code_simp

section \<open>Replacement without autofix\<close>

lemma replace_step_fst:
  "fst (replace_step tokens a1 acc1 v) = fst (replace_step tokens a2 acc2 v)"
  if "fst acc1 = fst acc2"
  using that by (simp add: replace_step_def Let_def split: option.splits)

lemma replace_step_False_snd: "snd (replace_step tokens False acc v) = snd acc"
  by (simp add: replace_step_def Let_def split: option.splits)

lemma foldl_replace_fst:
  "fst acc1 = fst acc2 \<Longrightarrow>
   fst (foldl (replace_step tokens a1) acc1 vs) = fst (foldl (replace_step tokens a2) acc2 vs)"
proof (induction vs arbitrary: acc1 acc2)
  case Nil
  then show ?case by simp
next
  case (Cons v vs)
  from replace_step_fst [OF Cons.prems]
  have "fst (replace_step tokens a1 acc1 v) = fst (replace_step tokens a2 acc2 v)" .
  from Cons.IH [OF this] show ?case by simp
qed

text \<open>
  C9. Without autofix \<open>replaceHardCodedValues\<close> returns, and the code it returns is
  the input code, unchanged; the suggestions are the ones the call with autofix makes,
  and they are counted.
\<close>

theorem replaceHardCodedValues_no_autofix:
  "\<exists>res fixed. replaceHardCodedValues code tokens False = Some res
      \<and> fixedCode res = code \<and> originalCode res = code
      \<and> replacementCount res = length (replacements res)
      \<and> replaceHardCodedValues code tokens True = Some fixed
      \<and> replacements fixed = replacements res"
proof -
  obtain vs where vs: "extractAllValues code = Some vs"
    using extractAllValues_total by blast
  have "fst (foldl (replace_step tokens True) ([], code) vs)
      = fst (foldl (replace_step tokens False) ([], code) vs)"
    by (rule foldl_replace_fst) simp
  with vs show ?thesis by (simp add: replaceHardCodedValues_def Let_def)
qed

section \<open>The batch contrast check\<close>

text \<open>
  C10. When the background name has no entry in the catalog, \<open>checkAllCombinations\<close>
  returns the empty list, whatever the sorting routine.
\<close>

theorem checkAllCombinations_missing_background:
  "List.find (\<lambda>t. t_name t = bg) tokens = None \<Longrightarrow> checkAllCombinations sort_impl bg tokens = []"
  by (simp add: checkAllCombinations_def)

lemma find_missing_example:
  "List.find (\<lambda>t. t_name t = ''color-missing'') [tok_color_primary, tok_spacing_md] = None"
  by code_simp

theorem checkAllCombinations_missing_background_witness:
  "checkAllCombinations js_sort ''color-missing'' [tok_color_primary, tok_spacing_md] = []"
  using checkAllCombinations_missing_background
          [of "''color-missing''" "[tok_color_primary, tok_spacing_md]" js_sort]
  by (simp only: find_missing_example)

end
